theory Spec2Isabelle
  imports Complex_Main "HOL-Library.Log_Nat"
begin

section \<open>Payroll tracker: commission formula and weekly close-out\<close>

text \<open>
  A shallow embedding of \<^verbatim>\<open>payroll_tracker_gui.py\<close>: the commission formula of class
  \<^verbatim>\<open>Invoice\<close>, class \<^verbatim>\<open>Employee\<close>, and the callbacks of \<^verbatim>\<open>PayrollTrackerGUI\<close> that change
  the employee list or the CSV files.

  Modelling decisions.
  \<^item> Amounts are Python floats in the source, rationals here. A double is the rational
    it denotes; NaN, infinities, overflow and subnormal numbers are not represented.
    \<open>to_double\<close> rounds a rational to the nearest double, as \<^verbatim>\<open>float(text)\<close> and every
    floating-point operation do.
  \<^item> \<^verbatim>\<open>f"{x:.2f}"\<close> writes the two-digit decimal nearest to the value of the double
    \<open>x\<close>: \<open>fmt2\<close>. An amount read from a file is kept as the decimal that was written;
    where the code computes with it in the invoice dialogs, the double nearest to it is
    taken. The close-out adds two such amounts and keeps the sum exact.
  \<^item> The commission formula is given twice: \<open>calculate_commission_static\<close> in exact
    arithmetic, and \<open>calculate_commission_double\<close> as the interpreter evaluates it,
    every operation rounded to a double; the dialogs store what the second one gives.
  \<^item> A CSV file is its header and the list of its records, with typed fields; the text
    encoding of a row is not modelled. File operations succeed (no I/O failure), except
    in \<open>get_last_payment_date\<close>, which is defined on the outcome of reading the file.
  \<^item> Employee objects live in a store indexed by references; \<^verbatim>\<open>self.employees\<close> is a
    list of references, and a callback holds the reference its dialog was opened with.
  \<^item> A text entry parsed by \<^verbatim>\<open>float\<close> or \<^verbatim>\<open>int\<close> is an option: \<open>None\<close> is the text on
    which the conversion raises \<^verbatim>\<open>ValueError\<close>.
  \<^item> Strings are ASCII.
\<close>

subsection \<open>Commission\<close>

text \<open>\<^verbatim>\<open>Invoice.calculate_commission_static\<close>.\<close>

definition calculate_commission_static :: "bool \<Rightarrow> rat \<Rightarrow> rat \<Rightarrow> rat \<Rightarrow> rat \<Rightarrow> rat" where
  "calculate_commission_static credit_card_used total_v tip_v materials_v fees_v =
     (if credit_card_used then ((total_v - materials_v - fees_v) / 2) + tip_v
      else if materials_v < 35 then ((total_v - fees_v) / 2) + tip_v
      else ((total_v - materials_v - fees_v) / 2) + tip_v + materials_v)"

subsection \<open>Two-decimal serialisation\<close>

text \<open>
  \<^verbatim>\<open>f"{x:.2f}"\<close> writes the decimal with two digits nearest to the value of the double
  \<open>x\<close>, a tie going to the even last digit; reading the text back gives that decimal.
\<close>

definition round_half_even :: "rat \<Rightarrow> int" where
  "round_half_even y =
     (let f = \<lfloor>y\<rfloor>; r = y - of_int f
      in if r < 1 / 2 then f else if 1 / 2 < r then f + 1 else if even f then f else f + 1)"

definition fmt2 :: "rat \<Rightarrow> rat" where
  "fmt2 x = of_int (round_half_even (x * 100)) / 100"

subsection \<open>Doubles\<close>

text \<open>
  \<open>binade x\<close> is the exponent \<open>e\<close> with \<open>2^e \<le> |x| < 2^(e+1)\<close>. A double has 53
  significant bits, so the doubles of that binade are the multiples of \<open>2^(e-52)\<close>, and
  \<open>to_double\<close> rounds to the nearest one, a tie going to the even significand
  (IEEE 754 round-to-nearest-even, which \<^verbatim>\<open>float(text)\<close> and the operations
  \<^verbatim>\<open>+\<close>, \<^verbatim>\<open>-\<close>, \<^verbatim>\<open>/\<close> on floats use).
\<close>

definition pow2 :: "int \<Rightarrow> rat" where
  "pow2 e = (if 0 \<le> e then 2 ^ nat e else 1 / 2 ^ nat (- e))"

definition binade :: "rat \<Rightarrow> int" where
  "binade x =
     (let p = fst (quotient_of \<bar>x\<bar>); q = snd (quotient_of \<bar>x\<bar>); b = bitlen p - bitlen q
      in if pow2 b \<le> \<bar>x\<bar> then b else b - 1)"

definition to_double :: "rat \<Rightarrow> rat" where
  "to_double x =
     (if x = 0 then 0
      else (let q = pow2 (binade x - 52) in of_int (round_half_even (x / q)) * q))"

definition fadd :: "rat \<Rightarrow> rat \<Rightarrow> rat" where
  "fadd a b = to_double (a + b)"

definition fsub :: "rat \<Rightarrow> rat \<Rightarrow> rat" where
  "fsub a b = to_double (a - b)"

definition fdiv :: "rat \<Rightarrow> rat \<Rightarrow> rat" where
  "fdiv a b = to_double (a / b)"

text \<open>
  \<^verbatim>\<open>Invoice.calculate_commission_static\<close> on doubles, each operation of the source
  rounded as the interpreter rounds it.
\<close>

definition calculate_commission_double :: "bool \<Rightarrow> rat \<Rightarrow> rat \<Rightarrow> rat \<Rightarrow> rat \<Rightarrow> rat" where
  "calculate_commission_double credit_card_used total_v tip_v materials_v fees_v =
     (if credit_card_used then fadd (fdiv (fsub (fsub total_v materials_v) fees_v) 2) tip_v
      else if materials_v < 35 then fadd (fdiv (fsub total_v fees_v) 2) tip_v
      else fadd (fadd (fdiv (fsub (fsub total_v materials_v) fees_v) 2) tip_v) materials_v)"

subsection \<open>Strings\<close>

text \<open>\<^verbatim>\<open>str.strip()\<close>, \<^verbatim>\<open>str.lower()\<close> and \<^verbatim>\<open>str.replace(a, b)\<close> for one-character \<open>a\<close>, \<open>b\<close>.\<close>

definition isspace :: "char \<Rightarrow> bool" where
  "isspace c = (let n = (of_char c :: nat) in (9 \<le> n \<and> n \<le> 13) \<or> (28 \<le> n \<and> n \<le> 32))"

definition strip :: "string \<Rightarrow> string" where
  "strip s = rev (dropWhile isspace (rev (dropWhile isspace s)))"

definition lower_char :: "char \<Rightarrow> char" where
  "lower_char c = (let n = (of_char c :: nat) in if 65 \<le> n \<and> n \<le> 90 then char_of (n + 32) else c)"

definition lower :: "string \<Rightarrow> string" where
  "lower s = map lower_char s"

definition replace :: "char \<Rightarrow> char \<Rightarrow> string \<Rightarrow> string" where
  "replace a b s = map (\<lambda>c. if c = a then b else c) s"

subsection \<open>Class Employee\<close>

record employee =
  emp_id :: int
  name :: string
  weekly_pay :: rat
  year_to_date_pay :: rat

text \<open>\<^verbatim>\<open>Employee.__init__\<close>: both amounts are clamped at zero.\<close>

definition Employee :: "int \<Rightarrow> string \<Rightarrow> rat \<Rightarrow> rat \<Rightarrow> employee" where
  "Employee i n w y = \<lparr>emp_id = i, name = n, weekly_pay = max 0 w, year_to_date_pay = max 0 y\<rparr>"

definition safe_name :: "employee \<Rightarrow> string" where
  "safe_name e = replace (CHR '' '') (CHR ''_'') (lower (strip (name e)))"

text \<open>
  File names. The source builds \<^verbatim>\<open>invoices/{safe_name}_{id}.csv\<close>,
  \<^verbatim>\<open>archived_invoices/{safe_name}_{id}_week_{safe_date}.csv\<close> and
  \<^verbatim>\<open>payment_history/{safe_name}_{id}_payments.csv\<close>; a file name is modelled by the
  values it is built from, one name space for each directory.
\<close>

definition get_invoice_filename :: "employee \<Rightarrow> string \<times> int" where
  "get_invoice_filename e = (safe_name e, emp_id e)"

definition get_archived_invoice_filename :: "employee \<Rightarrow> string \<Rightarrow> string \<times> int \<times> string" where
  "get_archived_invoice_filename e date_str =
     (safe_name e, emp_id e, replace (CHR ''/'') (CHR ''-'') date_str)"

definition get_payment_history_filename :: "employee \<Rightarrow> string \<times> int" where
  "get_payment_history_filename e = (safe_name e, emp_id e)"

definition add_weekly_pay :: "rat \<Rightarrow> employee \<Rightarrow> employee" where
  "add_weekly_pay amount e = e\<lparr>year_to_date_pay := year_to_date_pay e + amount\<rparr>"

definition close_out_week :: "employee \<Rightarrow> employee" where
  "close_out_week e = e\<lparr>year_to_date_pay := year_to_date_pay e + weekly_pay e, weekly_pay := 0\<rparr>"

definition edit_pay :: "rat \<Rightarrow> employee \<Rightarrow> employee" where
  "edit_pay new_weekly_pay e = e\<lparr>weekly_pay := max 0 new_weekly_pay\<rparr>"

subsection \<open>Files and the application state\<close>

datatype 'r csv = Csv (header: "string list") (rows: "'r list")

record invoice_row =
  number :: string
  customer :: string
  date :: string
  status :: string
  total :: rat
  tip :: rat
  materials :: rat
  fees :: rat
  commission :: rat

type_synonym payment_row = "string \<times> rat"

definition invoice_header :: "string list" where
  "invoice_header = [''Invoice#'', ''Customer'', ''Date'', ''Status'', ''Total'', ''Tip'',
     ''Materials'', ''Fees'', ''Commission'']"

definition employees_header :: "string list" where
  "employees_header = [''ID'', ''Name'', ''Weekly_Pay($)'', ''Year_To_Date_Pay($)'']"

definition payment_header :: "string list" where
  "payment_header = [''Date'', ''Amount'']"

text \<open>
  \<open>heap\<close> holds every \<^verbatim>\<open>Employee\<close> object created so far, \<open>next_ref\<close> is the first unused
  reference, \<open>employees\<close> is \<^verbatim>\<open>self.employees\<close>. A file that does not exist is \<open>None\<close>.
\<close>

record tracker =
  heap :: "nat \<Rightarrow> employee"
  next_ref :: nat
  employees :: "nat list"
  employees_csv :: "employee csv option"
  invoices :: "string \<times> int \<Rightarrow> invoice_row csv option"
  archived_invoices :: "string \<times> int \<times> string \<Rightarrow> invoice_row csv option"
  payment_history :: "string \<times> int \<Rightarrow> payment_row csv option"

text \<open>
  What a callback shows: the kind of message box with its title, nothing, or the
  exception that leaves the callback uncaught.
\<close>

datatype message = ShowInfo string | ShowWarning string | ShowError string
  | Uncaught string | Quiet

definition find_employee :: "tracker \<Rightarrow> int \<Rightarrow> nat option" where
  "find_employee st i = find (\<lambda>a. emp_id (heap st a) = i) (employees st)"

text \<open>
  \<^verbatim>\<open>load_employees\<close>: the list is cleared, and every row of \<^verbatim>\<open>employees.csv\<close> becomes a
  new object built by the constructor.
\<close>

definition employee_of_row :: "employee \<Rightarrow> employee" where
  "employee_of_row r = Employee (emp_id r) (strip (name r)) (weekly_pay r) (year_to_date_pay r)"

fun load_rows :: "employee list \<Rightarrow> tracker \<Rightarrow> tracker" where
  "load_rows [] st = st"
| "load_rows (r # rs) st =
     load_rows rs (st\<lparr>heap := (heap st)(next_ref st := employee_of_row r),
                      next_ref := Suc (next_ref st),
                      employees := employees st @ [next_ref st]\<rparr>)"

definition load_employees :: "tracker \<Rightarrow> tracker" where
  "load_employees st =
     (let st1 = st\<lparr>employees := []\<rparr>
      in case employees_csv st1 of None \<Rightarrow> st1 | Some c \<Rightarrow> load_rows (rows c) st1)"

definition employee_line :: "employee \<Rightarrow> employee" where
  "employee_line e = e\<lparr>weekly_pay := fmt2 (weekly_pay e),
                        year_to_date_pay := fmt2 (year_to_date_pay e)\<rparr>"

definition save_employees :: "tracker \<Rightarrow> tracker" where
  "save_employees st =
     st\<lparr>employees_csv :=
          Some (Csv employees_header (map (\<lambda>a. employee_line (heap st a)) (employees st)))\<rparr>"

text \<open>What an object is once it has been saved and loaded again.\<close>

definition reload :: "employee \<Rightarrow> employee" where
  "reload e = employee_of_row (employee_line e)"

text \<open>The objects of \<^verbatim>\<open>self.employees\<close>, in order, and the first one with a given id.\<close>

definition employee_list :: "tracker \<Rightarrow> employee list" where
  "employee_list st = map (heap st) (employees st)"

definition employee_by_id :: "tracker \<Rightarrow> int \<Rightarrow> employee option" where
  "employee_by_id st i = map_option (heap st) (find_employee st i)"

subsection \<open>Invoice dialogs\<close>

text \<open>
  The entries of the add and edit dialogs as the save callbacks read them. The edit
  dialog has no manual mode: \<open>save_changes\<close> does not read \<open>manual_override\<close> and
  \<open>manual_commission_entry\<close>.
\<close>

record invoice_form =
  number_entry :: string
  customer_entry :: string
  date_entry :: string
  status_choice :: string
  cc :: bool
  manual_override :: bool
  total_entry :: "rat option"
  tip_entry :: "rat option"
  materials_entry :: "rat option"
  fees_entry :: "rat option"
  manual_commission_entry :: "rat option"

text \<open>
  The four \<^verbatim>\<open>float(...)\<close> conversions in the order of the source; the first that fails
  raises. An entry holds the number its text denotes, and \<^verbatim>\<open>float\<close> gives the double
  nearest to it.
\<close>

definition formula_inputs :: "invoice_form \<Rightarrow> (rat \<times> rat \<times> rat \<times> rat) option" where
  "formula_inputs f =
     (case total_entry f of None \<Rightarrow> None | Some total_v \<Rightarrow>
      (case tip_entry f of None \<Rightarrow> None | Some tip_v \<Rightarrow>
       (case materials_entry f of None \<Rightarrow> None | Some materials_v \<Rightarrow>
        (case fees_entry f of None \<Rightarrow> None | Some fees_v \<Rightarrow>
           Some (to_double total_v, to_double tip_v, to_double materials_v,
                 to_double fees_v)))))"

text \<open>
  The commission and the four amounts to store: in manual mode the entered commission
  and zeros, otherwise the commission of a new \<^verbatim>\<open>Invoice\<close>, whose constructor calls
  \<^verbatim>\<open>calculate_commission_static\<close> on its fields.
\<close>

definition commission_inputs :: "invoice_form \<Rightarrow> (rat \<times> rat \<times> rat \<times> rat \<times> rat) option" where
  "commission_inputs f =
     (if manual_override f then
        (case manual_commission_entry f of None \<Rightarrow> None
         | Some commission_v \<Rightarrow> Some (to_double commission_v, 0, 0, 0, 0))
      else
        (case formula_inputs f of None \<Rightarrow> None
         | Some (total_v, tip_v, materials_v, fees_v) \<Rightarrow>
             Some (calculate_commission_double (cc f) total_v tip_v materials_v fees_v,
                   total_v, tip_v, materials_v, fees_v)))"

definition written_row :: "string \<Rightarrow> string \<Rightarrow> string \<Rightarrow> string \<Rightarrow> rat \<Rightarrow> rat \<Rightarrow> rat \<Rightarrow> rat \<Rightarrow> rat
    \<Rightarrow> invoice_row" where
  "written_row number_v customer_v date_v status_v total_v tip_v materials_v fees_v commission_v =
     \<lparr>number = number_v, customer = customer_v, date = date_v, status = status_v,
      total = fmt2 total_v, tip = fmt2 tip_v, materials = fmt2 materials_v, fees = fmt2 fees_v,
      commission = fmt2 commission_v\<rparr>"

text \<open>\<^verbatim>\<open>add_invoice_dialog.save_invoice\<close>, for the dialog opened with the object \<open>emp\<close>.\<close>

definition save_invoice :: "tracker \<Rightarrow> nat \<Rightarrow> invoice_form \<Rightarrow> tracker \<times> message" where
  "save_invoice st emp f =
     (let number_v = strip (number_entry f); customer_v = strip (customer_entry f);
          date_v = strip (date_entry f); status_v = status_choice f
      in if number_v = [] \<or> customer_v = [] then (st, ShowWarning ''Warning'')
         else
           (case commission_inputs f of
              None \<Rightarrow> (st, ShowError ''Error'')
            | Some (commission_v, total_v, tip_v, materials_v, fees_v) \<Rightarrow>
                (let filename = get_invoice_filename (heap st emp);
                     row = written_row number_v customer_v date_v status_v
                             total_v tip_v materials_v fees_v commission_v;
                     file = (case invoices st filename of
                               None \<Rightarrow> Csv invoice_header [row]
                             | Some c \<Rightarrow> Csv (header c) (rows c @ [row]));
                     st1 = st\<lparr>invoices := (invoices st)(filename \<mapsto> file)\<rparr>;
                     st2 = st1\<lparr>heap := (heap st1)(emp := (heap st1 emp)
                             \<lparr>weekly_pay := fadd (to_double (weekly_pay (heap st1 emp)))
                                              commission_v\<rparr>)\<rparr>
                 in (load_employees (save_employees st2), ShowInfo ''Success''))))"

text \<open>
  \<^verbatim>\<open>edit_invoice_dialog.save_changes\<close>, for the dialog opened with the object \<open>emp\<close> on
  the row \<open>invoice_row\<close>, whose commission the dialog has read with \<^verbatim>\<open>float\<close>. Opening a
  file that does not exist raises an exception that the callback does not catch.
\<close>

definition save_changes :: "tracker \<Rightarrow> nat \<Rightarrow> invoice_row \<Rightarrow> invoice_form \<Rightarrow> tracker \<times> message" where
  "save_changes st emp invoice_row f =
     (let new_number = strip (number_entry f); new_customer = strip (customer_entry f);
          new_date = strip (date_entry f); new_status = status_choice f
      in case formula_inputs f of
           None \<Rightarrow> (st, ShowError ''Error'')
         | Some (new_total, new_tip, new_materials, new_fees) \<Rightarrow>
             if new_number = [] \<or> new_customer = [] then (st, ShowWarning ''Warning'')
             else
               (let filename = get_invoice_filename (heap st emp);
                    new_commission =
                      calculate_commission_double (cc f) new_total new_tip new_materials new_fees
                in case invoices st filename of
                     None \<Rightarrow> (st, Uncaught ''FileNotFoundError'')
                   | Some c \<Rightarrow>
                       (let new_row = written_row new_number new_customer new_date new_status
                                        new_total new_tip new_materials new_fees new_commission;
                            invoices_v = map (\<lambda>row. if number row = number invoice_row
                                                    then new_row else row) (rows c);
                            st1 = st\<lparr>invoices := (invoices st)(filename \<mapsto> Csv (header c) invoices_v)\<rparr>;
                            commission_diff =
                              fsub new_commission (to_double (commission invoice_row));
                            st2 = st1\<lparr>heap := (heap st1)(emp := (heap st1 emp)
                                    \<lparr>weekly_pay := fadd (to_double (weekly_pay (heap st1 emp)))
                                                     commission_diff\<rparr>)\<rparr>
                        in (load_employees (save_employees st2), ShowInfo ''Success''))))"

text \<open>\<^verbatim>\<open>toggle_invoice_status\<close>.\<close>

definition toggle_invoice_status :: "tracker \<Rightarrow> nat \<Rightarrow> invoice_row \<Rightarrow> string \<Rightarrow> tracker \<times> message" where
  "toggle_invoice_status st emp invoice_row new_status =
     (let filename = get_invoice_filename (heap st emp);
          invoice_number = number invoice_row;
          old_status = status invoice_row
      in if old_status = new_status then (st, ShowInfo ''Info'')
         else
           (case invoices st filename of
              None \<Rightarrow> (st, ShowError ''Error'')
            | Some c \<Rightarrow>
                (st\<lparr>invoices := (invoices st)(filename \<mapsto> Csv (header c)
                       (map (\<lambda>row. if number row = invoice_number
                                   then row\<lparr>status := new_status\<rparr> else row) (rows c)))\<rparr>,
                 ShowInfo ''Success'')))"

subsection \<open>Employee dialogs\<close>

text \<open>\<^verbatim>\<open>add_employee.save_new_employee\<close>.\<close>

definition save_new_employee :: "tracker \<Rightarrow> int option \<Rightarrow> string \<Rightarrow> tracker \<times> message" where
  "save_new_employee st id_entry name_entry =
     (case id_entry of
        None \<Rightarrow> (st, ShowError ''Error'')
      | Some emp_id_v \<Rightarrow>
          (let emp_name = strip name_entry
           in if emp_name = [] then (st, ShowWarning ''Warning'')
              else if find_employee st emp_id_v \<noteq> None then (st, ShowError ''Error'')
              else
                (let new_emp = Employee emp_id_v emp_name 0 0;
                     st1 = st\<lparr>heap := (heap st)(next_ref st := new_emp),
                              next_ref := Suc (next_ref st),
                              employees := employees st @ [next_ref st]\<rparr>;
                     filename = get_invoice_filename new_emp;
                     st2 = st1\<lparr>invoices := (invoices st1)(filename \<mapsto> Csv invoice_header [])\<rparr>
                 in (load_employees (save_employees st2), ShowInfo ''Success''))))"

text \<open>
  \<^verbatim>\<open>edit_employee_info.edit_selected.save_employee\<close>, for the dialog opened with the
  object \<open>emp\<close>. \<^verbatim>\<open>os.rename\<close> replaces an existing target (POSIX).
\<close>

definition save_employee :: "tracker \<Rightarrow> nat \<Rightarrow> int option \<Rightarrow> string \<Rightarrow> tracker \<times> message" where
  "save_employee st emp id_entry name_entry =
     (case id_entry of
        None \<Rightarrow> (st, ShowError ''Error'')
      | Some new_id \<Rightarrow>
          (let new_name = strip name_entry
           in if new_name = [] then (st, ShowWarning ''Warning'')
              else if new_id \<noteq> emp_id (heap st emp)
                      \<and> list_ex (\<lambda>a. emp_id (heap st a) = new_id) (employees st)
                then (st, ShowError ''Error'')
              else
                (let old_filename = get_invoice_filename (heap st emp);
                     st1 = st\<lparr>heap := (heap st)(emp := (heap st emp)\<lparr>emp_id := new_id, name := new_name\<rparr>)\<rparr>;
                     new_filename = get_invoice_filename (heap st1 emp);
                     st2 = (if old_filename \<noteq> new_filename \<and> invoices st1 old_filename \<noteq> None
                            then st1\<lparr>invoices := ((invoices st1)(old_filename := None))
                                       (new_filename := invoices st1 old_filename)\<rparr>
                            else st1)
                 in (load_employees (save_employees st2), ShowInfo ''Success''))))"

subsection \<open>Close-out\<close>

text \<open>
  \<^verbatim>\<open>record_payment\<close> and \<^verbatim>\<open>archive_invoices\<close>. \<open>today\<close> is the current date as
  \<^verbatim>\<open>strftime("%m/%d/%Y")\<close> prints it, used when no payment date is given.
\<close>

definition record_payment :: "string \<Rightarrow> tracker \<Rightarrow> nat \<Rightarrow> rat \<Rightarrow> string option \<Rightarrow> tracker" where
  "record_payment today st emp amount payment_date =
     (let filename = get_payment_history_filename (heap st emp);
          payment_date_v = (case payment_date of None \<Rightarrow> today | Some d \<Rightarrow> d);
          row = (payment_date_v, fmt2 amount)
      in st\<lparr>payment_history := (payment_history st)(filename \<mapsto>
              (case payment_history st filename of
                 None \<Rightarrow> Csv payment_header [row]
               | Some c \<Rightarrow> Csv (header c) (rows c @ [row])))\<rparr>)"

definition archive_invoices :: "string \<Rightarrow> tracker \<Rightarrow> nat \<Rightarrow> string option \<Rightarrow> tracker" where
  "archive_invoices today st emp payment_date =
     (let current_filename = get_invoice_filename (heap st emp)
      in case invoices st current_filename of
           None \<Rightarrow> st
         | Some c \<Rightarrow>
             (let archive_date = (case payment_date of
                                    None \<Rightarrow> replace (CHR ''/'') (CHR ''-'') today
                                  | Some d \<Rightarrow> replace (CHR ''/'') (CHR ''-'') d);
                  archived_filename = get_archived_invoice_filename (heap st emp) archive_date
              in st\<lparr>archived_invoices := (archived_invoices st)(archived_filename \<mapsto> c),
                    invoices := (invoices st)(current_filename \<mapsto> Csv invoice_header [])\<rparr>))"

text \<open>
  The payment-date dialog: each press of the confirm button reads the entry, each
  invalid date is reported and the dialog stays open; cancelling or closing the window
  ends it unconfirmed. \<open>strptime_ok\<close> says whether
  \<^verbatim>\<open>datetime.strptime(payment_date, "%m/%d/%Y")\<close> returns. The result is the date of
  \<^verbatim>\<open>result['date']\<close> when \<^verbatim>\<open>result['confirmed']\<close> is set.
\<close>

datatype dialog_action = Confirm string | Cancel

fun date_dialog :: "(string \<Rightarrow> bool) \<Rightarrow> dialog_action list \<Rightarrow> string option" where
  "date_dialog strptime_ok [] = None"
| "date_dialog strptime_ok (Cancel # acts) = None"
| "date_dialog strptime_ok (Confirm text_v # acts) =
     (let payment_date = strip text_v
      in if strptime_ok payment_date then Some payment_date else date_dialog strptime_ok acts)"

text \<open>
  \<^verbatim>\<open>close_out_week.process_closeout\<close>; \<open>selection\<close> is the id chosen in the combo box.
\<close>

definition process_closeout :: "(string \<Rightarrow> bool) \<Rightarrow> string \<Rightarrow> tracker \<Rightarrow> int option
    \<Rightarrow> dialog_action list \<Rightarrow> tracker \<times> message" where
  "process_closeout strptime_ok today st selection acts =
     (case selection of
        None \<Rightarrow> (st, ShowWarning ''Warning'')
      | Some emp_id_v \<Rightarrow>
          (case find_employee st emp_id_v of
             None \<Rightarrow> (st, Uncaught ''AttributeError'')
           | Some emp \<Rightarrow>
               if weekly_pay (heap st emp) \<le> 0 then (st, ShowInfo ''Info'')
               else
                 (case date_dialog strptime_ok acts of
                    None \<Rightarrow> (st, Quiet)
                  | Some d \<Rightarrow>
                      (let st1 = record_payment today st emp (weekly_pay (heap st emp)) (Some d);
                           st2 = archive_invoices today st1 emp (Some d);
                           st3 = st2\<lparr>heap := (heap st2)(emp :=
                                   add_weekly_pay (weekly_pay (heap st2 emp)) (heap st2 emp))\<rparr>;
                           st4 = st3\<lparr>heap := (heap st3)(emp := edit_pay 0 (heap st3 emp))\<rparr>
                       in (load_employees (save_employees st4), ShowInfo ''Success'')))))"

text \<open>
  \<^verbatim>\<open>get_last_payment_date\<close>, on the outcome of reading the payment-history file: the file
  does not exist, reading raises, or the file is read.
\<close>

datatype 'a read_result = NotFound | ReadError | Contents 'a

definition read_payment_history :: "tracker \<Rightarrow> employee \<Rightarrow> payment_row csv read_result" where
  "read_payment_history st e =
     (case payment_history st (get_payment_history_filename e) of
        None \<Rightarrow> NotFound | Some c \<Rightarrow> Contents c)"

definition get_last_payment_date :: "payment_row csv read_result \<Rightarrow> string" where
  "get_last_payment_date r =
     (case r of
        NotFound \<Rightarrow> ''Never Paid''
      | ReadError \<Rightarrow> ''Never Paid''
      | Contents c \<Rightarrow> (if rows c \<noteq> [] then fst (last (rows c)) else ''Never Paid''))"

subsection \<open>Runs of the application\<close>

text \<open>
  The callbacks that change the state. A dialog callback carries the reference of the
  object its dialog was opened with; the object exists, whether or not it is still in
  \<^verbatim>\<open>self.employees\<close>.
\<close>

datatype action =
    SaveNewEmployee "int option" string
  | SaveEmployee nat "int option" string
  | SaveInvoice nat invoice_form
  | SaveChanges nat invoice_row invoice_form
  | ToggleInvoiceStatus nat invoice_row string
  | ProcessCloseout "int option" "dialog_action list"

fun perform :: "(string \<Rightarrow> bool) \<Rightarrow> string \<Rightarrow> action \<Rightarrow> tracker \<Rightarrow> tracker \<times> message" where
  "perform strptime_ok today (SaveNewEmployee id_entry name_entry) st =
     save_new_employee st id_entry name_entry"
| "perform strptime_ok today (SaveEmployee emp id_entry name_entry) st =
     save_employee st emp id_entry name_entry"
| "perform strptime_ok today (SaveInvoice emp f) st = save_invoice st emp f"
| "perform strptime_ok today (SaveChanges emp invoice_row f) st = save_changes st emp invoice_row f"
| "perform strptime_ok today (ToggleInvoiceStatus emp invoice_row new_status) st =
     toggle_invoice_status st emp invoice_row new_status"
| "perform strptime_ok today (ProcessCloseout selection acts) st =
     process_closeout strptime_ok today st selection acts"

fun object_exists :: "tracker \<Rightarrow> action \<Rightarrow> bool" where
  "object_exists st (SaveEmployee emp id_entry name_entry) = (emp < next_ref st)"
| "object_exists st (SaveInvoice emp f) = (emp < next_ref st)"
| "object_exists st (SaveChanges emp invoice_row f) = (emp < next_ref st)"
| "object_exists st (ToggleInvoiceStatus emp invoice_row new_status) = (emp < next_ref st)"
| "object_exists st act = True"

text \<open>
  Amounts in \<^verbatim>\<open>employees.csv\<close> have two decimal digits, as the application writes them.
\<close>

definition two_decimals :: "rat \<Rightarrow> bool" where
  "two_decimals x = (fmt2 x = x)"

definition stored_amounts_ok :: "tracker \<Rightarrow> bool" where
  "stored_amounts_ok st =
     (case employees_csv st of
        None \<Rightarrow> True
      | Some c \<Rightarrow> list_all (\<lambda>r. two_decimals (weekly_pay r) \<and> two_decimals (year_to_date_pay r))
                    (rows c))"

text \<open>
  The states of a run: \<^verbatim>\<open>PayrollTrackerGUI.__init__\<close> loads the employees into an empty
  list, then callbacks run one after the other.
\<close>

inductive reachable :: "tracker \<Rightarrow> bool" where
  start: "employees st0 = [] \<Longrightarrow> stored_amounts_ok st0 \<Longrightarrow> reachable (load_employees st0)"
| step: "reachable st \<Longrightarrow> object_exists st act \<Longrightarrow>
         reachable (fst (perform strptime_ok today act st))"

text \<open>The state of an employee's pay that every run keeps.\<close>

definition pay_ok :: "employee \<Rightarrow> bool" where
  "pay_ok e = (0 \<le> weekly_pay e \<and> 0 \<le> year_to_date_pay e
               \<and> two_decimals (weekly_pay e) \<and> two_decimals (year_to_date_pay e))"

definition pay_nonneg :: "employee \<Rightarrow> bool" where
  "pay_nonneg e = (0 \<le> weekly_pay e \<and> 0 \<le> year_to_date_pay e)"

subsection \<open>An example run\<close>

text \<open>
  A storage with one employee, Bob, owed 10.00 this week for two invoices, and the state
  of the application started on it.
\<close>

definition invoice_a :: invoice_row where
  "invoice_a = \<lparr>number = ''A-1'', customer = ''Ann'', date = ''01/05/2026'', status = ''Unpaid'',
     total = 40, tip = 0, materials = 0, fees = 0, commission = 20\<rparr>"

definition invoice_b :: invoice_row where
  "invoice_b = \<lparr>number = ''B-2'', customer = ''Ben'', date = ''01/06/2026'', status = ''Paid'',
     total = 0, tip = 0, materials = 0, fees = 0, commission = - 10\<rparr>"

definition example_storage :: tracker where
  "example_storage =
     \<lparr>heap = (\<lambda>r. Employee 0 [] 0 0), next_ref = 0, employees = [],
      employees_csv = Some (Csv employees_header
        [\<lparr>emp_id = 1, name = ''Bob'', weekly_pay = 10, year_to_date_pay = 0\<rparr>]),
      invoices = (\<lambda>k. None)((''bob'', 1) \<mapsto> Csv invoice_header [invoice_a, invoice_b]),
      archived_invoices = (\<lambda>k. None),
      payment_history = (\<lambda>k. None)\<rparr>"

definition example_tracker :: tracker where
  "example_tracker = load_employees example_storage"

text \<open>An entry form with every field empty.\<close>

definition empty_form :: invoice_form where
  "empty_form = \<lparr>number_entry = [], customer_entry = [], date_entry = [], status_choice = [],
     cc = False, manual_override = False, total_entry = None, tip_entry = None,
     materials_entry = None, fees_entry = None, manual_commission_entry = None\<rparr>"

text \<open>
  Bob's week is closed out on 01/09/2026, after a first entry that is not a date. Of
  \<^verbatim>\<open>strptime\<close> the example needs only that it accepts this date and refuses that entry.
\<close>

definition example_strptime_ok :: "string \<Rightarrow> bool" where
  "example_strptime_ok s = (s = ''01/09/2026'')"

definition example_closed :: tracker where
  "example_closed = fst (process_closeout example_strptime_ok ''01/08/2026'' example_tracker
     (Some 1) [Confirm ''tomorrow'', Confirm '' 01/09/2026 ''])"

text \<open>The same storage without Bob's invoice file, and Bob's week closed out there.\<close>

definition example_no_file :: tracker where
  "example_no_file = load_employees (example_storage\<lparr>invoices := (\<lambda>k. None)\<rparr>)"

definition example_no_file_closed :: tracker where
  "example_no_file_closed = fst (process_closeout example_strptime_ok ''01/08/2026''
     example_no_file (Some 1) [Confirm ''01/09/2026''])"

text \<open>
  Invoice A-1 edited to a total of 10.00, which gives a commission of 5.00; and an
  invoice added in manual mode with a commission of 12.344.
\<close>

definition example_edit :: invoice_form where
  "example_edit = empty_form\<lparr>number_entry := ''A-1'', customer_entry := ''Ann'',
     date_entry := ''01/05/2026'', status_choice := ''Unpaid'',
     total_entry := Some 10, tip_entry := Some 0, materials_entry := Some 0,
     fees_entry := Some 0\<rparr>"

definition example_manual :: invoice_form where
  "example_manual = empty_form\<lparr>number_entry := ''C-3'', customer_entry := ''Cy'',
     date_entry := ''01/07/2026'', status_choice := ''Unpaid'', manual_override := True,
     manual_commission_entry := Some (12344 / 1000)\<rparr>"

text \<open>An invoice added in manual mode with a commission of -15.00.\<close>

definition example_refund :: invoice_form where
  "example_refund = empty_form\<lparr>number_entry := ''D-4'', customer_entry := ''Di'',
     date_entry := ''01/07/2026'', status_choice := ''Paid'', manual_override := True,
     manual_commission_entry := Some (- 15)\<rparr>"

text \<open>Invoice A-1 edited to a total of 60.00, which gives a commission of 30.00.\<close>

definition example_edit_up :: invoice_form where
  "example_edit_up = example_edit\<lparr>total_entry := Some 60\<rparr>"

text \<open>The state after the refund invoice is added for Bob.\<close>

definition example_clamped :: tracker where
  "example_clamped = fst (perform example_strptime_ok ''01/08/2026''
     (SaveInvoice 0 example_refund) example_tracker)"

subsection \<open>Theorems\<close>




subsection \<open>Supporting lemmas\<close>

lemma round_half_even_of_int: "round_half_even (of_int n) = n"
  by (simp add: round_half_even_def)

lemma fmt2_cents: "fmt2 (of_int n / 100) = of_int n / 100"
  by (simp add: fmt2_def round_half_even_of_int)

lemma fmt2_idem: "fmt2 (fmt2 x) = fmt2 x"
  unfolding fmt2_def[of x] by (rule fmt2_cents)

lemma two_decimals_fmt2: "two_decimals (fmt2 x)"
  by (simp add: two_decimals_def fmt2_idem)

lemma two_decimals_cents: "two_decimals x \<Longrightarrow> \<exists>n. x = of_int n / 100"
  unfolding two_decimals_def fmt2_def by metis

lemma two_decimals_zero: "two_decimals 0"
  using fmt2_cents[of 0] by (simp add: two_decimals_def)

lemma two_decimals_add: "two_decimals x \<Longrightarrow> two_decimals y \<Longrightarrow> two_decimals (x + y)"
proof -
  assume "two_decimals x" "two_decimals y"
  then obtain a b where "x = of_int a / 100" "y = of_int b / 100"
    using two_decimals_cents by blast
  then have eq: "x + y = of_int (a + b) / 100" by (simp add: add_divide_distrib)
  show ?thesis by (simp only: two_decimals_def eq fmt2_cents)
qed

lemma two_decimals_max: "two_decimals x \<Longrightarrow> two_decimals (max 0 x)"
  by (simp add: max_def two_decimals_zero)

lemma pay_ok_of_row:
  "two_decimals (weekly_pay r) \<Longrightarrow> two_decimals (year_to_date_pay r) \<Longrightarrow> pay_ok (employee_of_row r)"
  by (simp add: pay_ok_def employee_of_row_def Employee_def two_decimals_max)

lemma pay_ok_reload: "pay_ok (reload e)"
  by (simp add: reload_def employee_line_def pay_ok_of_row two_decimals_fmt2)

lemma reload_id: "emp_id (reload e) = emp_id e"
  by (simp add: reload_def employee_line_def employee_of_row_def Employee_def)

lemma reload_pay_ok:
  "pay_ok e \<Longrightarrow> weekly_pay (reload e) = weekly_pay e \<and> year_to_date_pay (reload e) = year_to_date_pay e"
  by (simp add: reload_def employee_line_def employee_of_row_def Employee_def pay_ok_def
      two_decimals_def)

lemma load_rows_frame:
  "invoices (load_rows rs st) = invoices st \<and>
   archived_invoices (load_rows rs st) = archived_invoices st \<and>
   payment_history (load_rows rs st) = payment_history st \<and>
   employees_csv (load_rows rs st) = employees_csv st"
  by (induction rs arbitrary: st) simp_all

lemma load_rows_list:
  "\<forall>a \<in> set (employees st). a < next_ref st \<Longrightarrow>
   employee_list (load_rows rs st) = employee_list st @ map employee_of_row rs"
proof (induction rs arbitrary: st)
  case Nil
  then show ?case by simp
next
  case (Cons r rs)
  let ?st = "st\<lparr>heap := (heap st)(next_ref st := employee_of_row r),
                 next_ref := Suc (next_ref st),
                 employees := employees st @ [next_ref st]\<rparr>"
  have "\<forall>a \<in> set (employees ?st). a < next_ref ?st"
    using Cons.prems by (auto simp: less_Suc_eq)
  then have "employee_list (load_rows rs ?st) = employee_list ?st @ map employee_of_row rs"
    by (rule Cons.IH)
  moreover have "employee_list ?st = employee_list st @ [employee_of_row r]"
    using Cons.prems by (auto simp: employee_list_def)
  ultimately show ?case by simp
qed

lemma load_save_list:
  "employee_list (load_employees (save_employees st)) = map reload (employee_list st)"
proof -
  let ?st = "(save_employees st)\<lparr>employees := []\<rparr>"
  have "employee_list (load_rows (map (\<lambda>a. employee_line (heap st a)) (employees st)) ?st)
        = employee_list ?st @ map employee_of_row (map (\<lambda>a. employee_line (heap st a)) (employees st))"
    by (rule load_rows_list) simp
  then show ?thesis
    by (simp add: load_employees_def save_employees_def employee_list_def reload_def comp_def)
qed

lemma load_save_frame:
  "invoices (load_employees (save_employees st)) = invoices st \<and>
   archived_invoices (load_employees (save_employees st)) = archived_invoices st \<and>
   payment_history (load_employees (save_employees st)) = payment_history st"
  by (simp add: load_employees_def save_employees_def load_rows_frame)

lemma perform_list:
  "employee_list (fst (perform ok today act st)) = employee_list st \<or>
   (\<exists>st'. fst (perform ok today act st) = load_employees (save_employees st'))"
proof (cases act)
  case (SaveNewEmployee x11 x12)
  then show ?thesis by (auto simp: save_new_employee_def Let_def split: option.splits)
next
  case (SaveEmployee x21 x22 x23)
  then show ?thesis by (auto simp: save_employee_def Let_def split: option.splits)
next
  case (SaveInvoice x31 x32)
  then show ?thesis by (auto simp: save_invoice_def Let_def split: option.splits prod.splits)
next
  case (SaveChanges x41 x42 x43)
  then show ?thesis by (auto simp: save_changes_def Let_def split: option.splits prod.splits)
next
  case (ToggleInvoiceStatus x51 x52 x53)
  then show ?thesis
    by (auto simp: toggle_invoice_status_def employee_list_def Let_def split: option.splits)
next
  case (ProcessCloseout x61 x62)
  then show ?thesis by (auto simp: process_closeout_def Let_def split: option.splits)
qed

lemma reachable_pay_ok: "reachable st \<Longrightarrow> list_all pay_ok (employee_list st)"
proof (induction rule: reachable.induct)
  case (start st0)
  show ?case
  proof (cases "employees_csv st0")
    case None
    then show ?thesis using start by (simp add: load_employees_def employee_list_def)
  next
    case (Some c)
    have "employee_list (load_rows (rows c) (st0\<lparr>employees := []\<rparr>))
          = employee_list (st0\<lparr>employees := []\<rparr>) @ map employee_of_row (rows c)"
      by (rule load_rows_list) simp
    then show ?thesis using start Some
      by (auto simp: load_employees_def employee_list_def stored_amounts_ok_def list_all_iff
          pay_ok_of_row)
  qed
next
  case (step st act strptime_ok today)
  from perform_list[of strptime_ok today act st] show ?case
  proof
    assume "employee_list (fst (perform strptime_ok today act st)) = employee_list st"
    then show ?thesis using step.IH by simp
  next
    assume "\<exists>st'. fst (perform strptime_ok today act st) = load_employees (save_employees st')"
    then show ?thesis by (auto simp: load_save_list list_all_iff pay_ok_reload)
  qed
qed


lemma find_over_map: "find P (map f xs) = map_option f (find (\<lambda>x. P (f x)) xs)"
  by (induction xs) simp_all

lemma employee_by_id_find:
  "employee_by_id st i = find (\<lambda>e. emp_id e = i) (employee_list st)"
  by (simp add: employee_by_id_def find_employee_def employee_list_def find_over_map)

lemma employee_by_id_load_save:
  "employee_by_id (load_employees (save_employees st)) i = map_option reload (employee_by_id st i)"
  by (simp add: employee_by_id_find load_save_list find_over_map reload_id)

lemma record_payment_frame:
  "heap (record_payment today st emp amount pd) = heap st \<and>
   employees (record_payment today st emp amount pd) = employees st \<and>
   invoices (record_payment today st emp amount pd) = invoices st \<and>
   archived_invoices (record_payment today st emp amount pd) = archived_invoices st"
  by (simp add: record_payment_def Let_def)

lemma archive_invoices_frame:
  "heap (archive_invoices today st emp pd) = heap st \<and>
   employees (archive_invoices today st emp pd) = employees st \<and>
   payment_history (archive_invoices today st emp pd) = payment_history st"
  by (simp add: archive_invoices_def Let_def split: option.splits)

lemma find_employee_id: "find_employee st i = Some emp \<Longrightarrow> emp_id (heap st emp) = i"
  by (auto simp: find_employee_def find_Some_iff)

lemma find_employee_update:
  "emp_id e = emp_id (heap st emp) \<Longrightarrow>
   find_employee (st\<lparr>heap := (heap st)(emp := e)\<rparr>) i = find_employee st i"
proof -
  assume a: "emp_id e = emp_id (heap st emp)"
  have "(\<lambda>a. emp_id (((heap st)(emp := e)) a) = i) = (\<lambda>a. emp_id (heap st a) = i)"
    using a by (auto simp: fun_eq_iff)
  then show ?thesis by (simp add: find_employee_def)
qed

text \<open>The state a confirmed close-out saves and loads.\<close>

lemma process_closeout_confirmed:
  assumes "find_employee st i = Some emp" and "0 < weekly_pay (heap st emp)"
    and "date_dialog ok acts = Some d"
  shows "process_closeout ok today st (Some i) acts =
    (load_employees (save_employees
       ((archive_invoices today (record_payment today st emp (weekly_pay (heap st emp)) (Some d)) emp (Some d))
          \<lparr>heap := (heap st)(emp := (heap st emp)
              \<lparr>year_to_date_pay := year_to_date_pay (heap st emp) + weekly_pay (heap st emp),
               weekly_pay := 0\<rparr>)\<rparr>)),
     ShowInfo ''Success'')"
  using assms
  by (simp add: process_closeout_def Let_def record_payment_frame archive_invoices_frame
      add_weekly_pay_def edit_pay_def)

text \<open>
  C4. A close-out of an employee whose weekly pay is at most zero shows an information
  box and leaves the whole state as it is: the payment history, the archives, the invoice
  files and every employee's pay. Hence a close-out that follows a successful one of the
  same employee changes nothing.
\<close>

theorem closeout_guard:
  "(find_employee st i = Some emp \<and> weekly_pay (heap st emp) \<le> 0 \<longrightarrow>
      process_closeout ok today st (Some i) acts = (st, ShowInfo ''Info'')) \<and>
   (process_closeout ok today st (Some i) acts = (st', ShowInfo ''Success'') \<longrightarrow>
      process_closeout ok2 today2 st' (Some i) acts2 = (st', ShowInfo ''Info''))"
proof (intro conjI impI)
  assume "find_employee st i = Some emp \<and> weekly_pay (heap st emp) \<le> 0"
  then show "process_closeout ok today st (Some i) acts = (st, ShowInfo ''Info'')"
    by (simp add: process_closeout_def)
next
  assume success: "process_closeout ok today st (Some i) acts = (st', ShowInfo ''Success'')"
  then obtain emp d where found: "find_employee st i = Some emp"
    and pos: "0 < weekly_pay (heap st emp)" and dlg: "date_dialog ok acts = Some d"
    by (auto simp: process_closeout_def Let_def split: option.splits if_splits)
  let ?e = "(heap st emp)\<lparr>year_to_date_pay := year_to_date_pay (heap st emp) + weekly_pay (heap st emp),
                          weekly_pay := 0\<rparr>"
  let ?st4 = "(archive_invoices today (record_payment today st emp (weekly_pay (heap st emp)) (Some d))
                emp (Some d))\<lparr>heap := (heap st)(emp := ?e)\<rparr>"
  have st': "st' = load_employees (save_employees ?st4)"
    using process_closeout_confirmed[OF found pos dlg, of today] success by simp
  have f4: "find_employee ?st4 i = Some emp"
    using found find_employee_update[of ?e st emp i]
    by (simp add: find_employee_def archive_invoices_frame record_payment_frame)
  have "employee_by_id ?st4 i = Some ?e"
    using f4 by (simp add: employee_by_id_def)
  then have "employee_by_id st' i = Some (reload ?e)"
    by (simp add: st' employee_by_id_load_save)
  then obtain emp' where found': "find_employee st' i = Some emp'"
    and val: "heap st' emp' = reload ?e"
    by (auto simp: employee_by_id_def)
  have "weekly_pay (reload ?e) = 0"
    using fmt2_cents[of 0]
    by (simp add: reload_def employee_line_def employee_of_row_def Employee_def)
  then show "process_closeout ok2 today2 st' (Some i) acts2 = (st', ShowInfo ''Info'')"
    using found' val by (simp add: process_closeout_def)
qed


lemma two_decimals_int: "two_decimals (of_int n)"
  using fmt2_cents[of "n * 100"] by (simp add: two_decimals_def)

lemma example_tracker_eq:
  "example_tracker = example_storage\<lparr>heap := (heap example_storage)
       (0 := \<lparr>emp_id = 1, name = ''Bob'', weekly_pay = 10, year_to_date_pay = 0\<rparr>),
     next_ref := 1, employees := [0]\<rparr>"
  by (simp add: example_tracker_def load_employees_def example_storage_def employee_of_row_def
      Employee_def strip_def isspace_def)

lemma example_reachable: "reachable example_tracker"
  unfolding example_tracker_def
proof (rule reachable.start)
  show "employees example_storage = []" by (simp add: example_storage_def)
  have "two_decimals (10 :: rat)" "two_decimals (0 :: rat)"
    using two_decimals_int[of 10] two_decimals_int[of 0] by simp_all
  then show "stored_amounts_ok example_storage"
    by (simp add: stored_amounts_ok_def example_storage_def)
qed

lemma example_facts:
  "find_employee example_tracker 1 = Some 0"
  "heap example_tracker 0 = \<lparr>emp_id = 1, name = ''Bob'', weekly_pay = 10, year_to_date_pay = 0\<rparr>"
  "employees example_tracker = [0]"
  by (simp_all add: example_tracker_eq find_employee_def)


lemma example_dialog:
  "date_dialog example_strptime_ok [Confirm ''tomorrow'', Confirm '' 01/09/2026 ''] = Some ''01/09/2026''"
  by (simp add: example_strptime_ok_def strip_def isspace_def)


lemma bob_safe_name:
  "safe_name \<lparr>emp_id = i, name = ''Bob'', weekly_pay = w, year_to_date_pay = y\<rparr> = ''bob''"
proof -
  have "replace (CHR '' '') (CHR ''_'') (lower (strip ''Bob'')) = ''bob''" by code_simp
  then show ?thesis by (simp add: safe_name_def)
qed

lemmas file_defs = load_employees_def save_employees_def record_payment_def archive_invoices_def
  Let_def employee_line_def employee_of_row_def Employee_def
  get_payment_history_filename_def get_invoice_filename_def get_archived_invoice_filename_def
  bob_safe_name strip_def isspace_def replace_def fmt2_def round_half_even_def

lemma example_closed_eq:
  "example_closed =
     \<lparr>heap = (heap example_tracker)
        (0 := \<lparr>emp_id = 1, name = ''Bob'', weekly_pay = 0, year_to_date_pay = 10\<rparr>,
         1 := \<lparr>emp_id = 1, name = ''Bob'', weekly_pay = 0, year_to_date_pay = 10\<rparr>),
      next_ref = 2, employees = [1],
      employees_csv = Some (Csv employees_header
        [\<lparr>emp_id = 1, name = ''Bob'', weekly_pay = 0, year_to_date_pay = 10\<rparr>]),
      invoices = (\<lambda>k. None)((''bob'', 1) \<mapsto> Csv invoice_header []),
      archived_invoices = (\<lambda>k. None)((''bob'', 1, ''01-09-2026'') \<mapsto>
        Csv invoice_header [invoice_a, invoice_b]),
      payment_history = (\<lambda>k. None)((''bob'', 1) \<mapsto> Csv payment_header [(''01/09/2026'', 10)])\<rparr>"
  unfolding example_closed_def
  apply (simp add: process_closeout_confirmed[OF example_facts(1) _ example_dialog] example_facts)
  apply (simp add: example_tracker_eq example_storage_def file_defs)
  done


lemma find_employee_mem: "find_employee st i = Some emp \<Longrightarrow> emp \<in> set (employees st)"
  by (auto simp: find_employee_def find_Some_iff)

lemma reachable_member_ok: "reachable st \<Longrightarrow> emp \<in> set (employees st) \<Longrightarrow> pay_ok (heap st emp)"
  using reachable_pay_ok[of st] by (auto simp: list_all_iff employee_list_def)

lemma fmt2_zero: "fmt2 0 = 0"
  using fmt2_cents[of 0] by simp

text \<open>
  C5. In a run of the application, a confirmed close-out of an employee with weekly pay
  W > 0 and a valid payment date d appends the one record (d, W) to the employee's payment
  history, leaves every other payment history as it is, adds W to the year-to-date pay and
  sets the weekly pay to zero.
\<close>

theorem closeout_records_payment:
  assumes "reachable st" and "find_employee st i = Some emp"
    and "0 < weekly_pay (heap st emp)" and "date_dialog ok acts = Some d"
  shows "snd (process_closeout ok today st (Some i) acts) = ShowInfo ''Success'' \<and>
    payment_history (fst (process_closeout ok today st (Some i) acts)) =
      (payment_history st)(get_payment_history_filename (heap st emp) \<mapsto>
        (case payment_history st (get_payment_history_filename (heap st emp)) of
           None \<Rightarrow> Csv payment_header [(d, weekly_pay (heap st emp))]
         | Some c \<Rightarrow> Csv (header c) (rows c @ [(d, weekly_pay (heap st emp))]))) \<and>
    map_option weekly_pay (employee_by_id (fst (process_closeout ok today st (Some i) acts)) i)
      = Some 0 \<and>
    map_option year_to_date_pay
        (employee_by_id (fst (process_closeout ok today st (Some i) acts)) i)
      = Some (year_to_date_pay (heap st emp) + weekly_pay (heap st emp))"
proof -
  let ?w = "weekly_pay (heap st emp)" and ?y = "year_to_date_pay (heap st emp)"
  let ?e = "(heap st emp)\<lparr>year_to_date_pay := ?y + ?w, weekly_pay := 0\<rparr>"
  let ?st2 = "archive_invoices today (record_payment today st emp ?w (Some d)) emp (Some d)"
  let ?st4 = "?st2\<lparr>heap := (heap st)(emp := ?e)\<rparr>"
  have run: "process_closeout ok today st (Some i) acts =
      (load_employees (save_employees ?st4), ShowInfo ''Success'')"
    by (rule process_closeout_confirmed[OF assms(2,3,4)])
  have ok: "pay_ok (heap st emp)"
    using assms(1) find_employee_mem[OF assms(2)] by (rule reachable_member_ok)
  then have w2: "fmt2 ?w = ?w" and sum2: "fmt2 (?y + ?w) = ?y + ?w" and nonneg: "0 \<le> ?y + ?w"
    using two_decimals_add[of ?y ?w] by (simp_all add: pay_ok_def two_decimals_def)
  have pay: "payment_history (load_employees (save_employees ?st4)) =
      (payment_history st)(get_payment_history_filename (heap st emp) \<mapsto>
        (case payment_history st (get_payment_history_filename (heap st emp)) of
           None \<Rightarrow> Csv payment_header [(d, ?w)]
         | Some c \<Rightarrow> Csv (header c) (rows c @ [(d, ?w)])))"
    by (simp add: load_save_frame archive_invoices_frame record_payment_def Let_def w2)
  have "find_employee ?st4 i = Some emp"
    using assms(2) find_employee_update[of ?e st emp i]
    by (simp add: find_employee_def archive_invoices_frame record_payment_frame)
  then have "employee_by_id ?st4 i = Some ?e"
    by (simp add: employee_by_id_def)
  then have found: "employee_by_id (load_employees (save_employees ?st4)) i = Some (reload ?e)"
    by (simp add: employee_by_id_load_save)
  have "weekly_pay (reload ?e) = 0" and "year_to_date_pay (reload ?e) = ?y + ?w"
    using sum2 nonneg
    by (simp_all add: reload_def employee_line_def employee_of_row_def Employee_def fmt2_zero)
  then show ?thesis using run pay found by simp
qed

text \<open>
  C6 (amended). After a confirmed close-out with a valid payment date, if the employee's
  invoice file exists, it holds the header row only and the archive named by the employee
  and the date, slashes replaced by dashes, is the invoice file as it was before; if the
  invoice file does not exist, no invoice file and no archive is written.
\<close>

theorem closeout_archives_invoices:
  assumes "find_employee st i = Some emp" and "0 < weekly_pay (heap st emp)"
    and "date_dialog ok acts = Some d"
  shows "(invoices st (get_invoice_filename (heap st emp)) = Some c \<longrightarrow>
      invoices (fst (process_closeout ok today st (Some i) acts))
          (get_invoice_filename (heap st emp)) = Some (Csv invoice_header []) \<and>
      archived_invoices (fst (process_closeout ok today st (Some i) acts))
          (safe_name (heap st emp), emp_id (heap st emp), replace (CHR ''/'') (CHR ''-'') d)
        = Some c) \<and>
    (invoices st (get_invoice_filename (heap st emp)) = None \<longrightarrow>
      invoices (fst (process_closeout ok today st (Some i) acts)) = invoices st \<and>
      archived_invoices (fst (process_closeout ok today st (Some i) acts)) = archived_invoices st)"
proof -
  have twice: "replace (CHR ''/'') (CHR ''-'') (replace (CHR ''/'') (CHR ''-'') d)
      = replace (CHR ''/'') (CHR ''-'') d"
    by (simp add: replace_def)
  show ?thesis
    unfolding process_closeout_confirmed[OF assms, of today]
    by (simp add: load_save_frame archive_invoices_def record_payment_frame Let_def
        get_archived_invoice_filename_def twice)
qed

text \<open>
  C8. Setting the status of an invoice to the value its row already has shows an
  information box and leaves the state as it is: no file is rewritten.
\<close>

theorem toggle_same_status:
  "status invoice_row = new_status \<Longrightarrow>
   toggle_invoice_status st emp invoice_row new_status = (st, ShowInfo ''Info'')"
  by (simp add: toggle_invoice_status_def)

text \<open>
  C10. The last payment date of an employee is "Never Paid" when the payment-history file
  does not exist, cannot be read or holds its header only; otherwise it is the date of the
  last row of the file.
\<close>

theorem last_payment_date:
  "get_last_payment_date NotFound = ''Never Paid'' \<and>
   get_last_payment_date ReadError = ''Never Paid'' \<and>
   get_last_payment_date (Contents (Csv h [])) = ''Never Paid'' \<and>
   (rs \<noteq> [] \<longrightarrow> get_last_payment_date (Contents (Csv h rs)) = fst (last rs)) \<and>
   (payment_history st (get_payment_history_filename e) = None \<longrightarrow>
      read_payment_history st e = NotFound \<and>
      get_last_payment_date (read_payment_history st e) = ''Never Paid'') \<and>
   (payment_history st (get_payment_history_filename e) = Some (Csv h []) \<longrightarrow>
      get_last_payment_date (read_payment_history st e) = ''Never Paid'') \<and>
   (payment_history st (get_payment_history_filename e) = Some (Csv h rs) \<and> rs \<noteq> [] \<longrightarrow>
      read_payment_history st e = Contents (Csv h rs) \<and>
      get_last_payment_date (read_payment_history st e) = fst (last rs))"
  by (simp add: get_last_payment_date_def read_payment_history_def)

lemma save_invoice_success:
  assumes "commission_inputs f = Some (c, t, p, m, fe)"
    and "strip (number_entry f) \<noteq> []" and "strip (customer_entry f) \<noteq> []"
  shows "save_invoice st emp f =
    (load_employees (save_employees
       (st\<lparr>invoices := (invoices st)(get_invoice_filename (heap st emp) \<mapsto>
             (case invoices st (get_invoice_filename (heap st emp)) of
                None \<Rightarrow> Csv invoice_header
                  [written_row (strip (number_entry f)) (strip (customer_entry f))
                     (strip (date_entry f)) (status_choice f) t p m fe c]
              | Some file \<Rightarrow> Csv (header file) (rows file @
                  [written_row (strip (number_entry f)) (strip (customer_entry f))
                     (strip (date_entry f)) (status_choice f) t p m fe c]))),
           heap := (heap st)(emp := (heap st emp)
             \<lparr>weekly_pay := fadd (to_double (weekly_pay (heap st emp))) c\<rparr>)\<rparr>)),
     ShowInfo ''Success'')"
  using assms by (simp add: save_invoice_def Let_def)

lemma save_invoice_rows:
  assumes "commission_inputs f = Some (c, t, p, m, fe)"
    and "strip (number_entry f) \<noteq> []" and "strip (customer_entry f) \<noteq> []"
  shows "map_option rows (invoices (fst (save_invoice st emp f)) (get_invoice_filename (heap st emp)))
      = Some ((case invoices st (get_invoice_filename (heap st emp)) of
                 None \<Rightarrow> [] | Some file \<Rightarrow> rows file) @
              [written_row (strip (number_entry f)) (strip (customer_entry f))
                 (strip (date_entry f)) (status_choice f) t p m fe c])"
  by (simp add: save_invoice_success[OF assms] load_save_frame split: option.splits)

lemma manual_inputs:
  "manual_override f \<Longrightarrow> manual_commission_entry f = Some c \<Longrightarrow>
   commission_inputs f = Some (to_double c, 0, 0, 0, 0)"
  by (simp add: commission_inputs_def)

text \<open>
  C3 (amended). An invoice saved in manual mode is stored with total, tip, materials and
  fees zero and with the entered commission, read as a double, rounded to two decimal
  digits; the formula plays no part.
\<close>

theorem manual_override_row:
  assumes "manual_override f" and "manual_commission_entry f = Some c"
    and "strip (number_entry f) \<noteq> []" and "strip (customer_entry f) \<noteq> []"
  shows "snd (save_invoice st emp f) = ShowInfo ''Success'' \<and>
    map_option rows (invoices (fst (save_invoice st emp f)) (get_invoice_filename (heap st emp)))
      = Some ((case invoices st (get_invoice_filename (heap st emp)) of
                 None \<Rightarrow> [] | Some file \<Rightarrow> rows file) @
              [\<lparr>number = strip (number_entry f), customer = strip (customer_entry f),
                date = strip (date_entry f), status = status_choice f,
                total = 0, tip = 0, materials = 0, fees = 0,
                commission = fmt2 (to_double c)\<rparr>])"
  using save_invoice_rows[OF manual_inputs[OF assms(1,2)] assms(3,4), of st emp]
    save_invoice_success[OF manual_inputs[OF assms(1,2)] assms(3,4), of st emp]
  by (simp add: written_row_def fmt2_zero)

lemma save_changes_success:
  assumes "save_changes st emp invoice_row f = (st', ShowInfo ''Success'')"
    and "formula_inputs f = Some (t, p, m, fe)"
  shows "\<exists>files. st' = load_employees (save_employees
      (st\<lparr>invoices := files,
          heap := (heap st)(emp := (heap st emp)\<lparr>weekly_pay :=
            fadd (to_double (weekly_pay (heap st emp)))
              (fsub (calculate_commission_double (cc f) t p m fe)
                 (to_double (commission invoice_row)))\<rparr>)\<rparr>))"
  using assms
  by (auto simp: save_changes_def Let_def split: option.splits if_splits)

text \<open>
  C7 (amended). In a run of the application, an edit saved from a dialog whose employee
  object is in the employee list, changing the commission from C_old (the commission of
  the edited row) to C_new (the formula on the new entries), sets the employee's weekly
  pay W to the double sum W + (C_new - C_old), rounded to two decimal digits and clamped at
  zero; the year-to-date pay of the employee and both amounts of every other employee
  stay as they are.
\<close>

theorem edit_adjusts_weekly_pay:
  assumes "reachable st" and "emp \<in> set (employees st)"
    and "formula_inputs f = Some (t, p, m, fe)"
    and "save_changes st emp invoice_row f = (st', ShowInfo ''Success'')"
  shows "map weekly_pay (employee_list st') =
      map (\<lambda>b. if b = emp
                then max 0 (fmt2 (fadd (to_double (weekly_pay (heap st emp)))
                  (fsub (calculate_commission_double (cc f) t p m fe)
                     (to_double (commission invoice_row)))))
                else weekly_pay (heap st b)) (employees st) \<and>
    map year_to_date_pay (employee_list st') = map year_to_date_pay (employee_list st)"
proof -
  let ?w = "fadd (to_double (weekly_pay (heap st emp)))
              (fsub (calculate_commission_double (cc f) t p m fe)
                 (to_double (commission invoice_row)))"
  let ?e = "(heap st emp)\<lparr>weekly_pay := ?w\<rparr>"
  obtain files where st': "st' = load_employees (save_employees
      (st\<lparr>invoices := files, heap := (heap st)(emp := ?e)\<rparr>))"
    using save_changes_success[OF assms(4,3)] by blast
  have "employee_list st' =
      map reload (employee_list (st\<lparr>invoices := files, heap := (heap st)(emp := ?e)\<rparr>))"
    unfolding st' by (rule load_save_list)
  then have list: "employee_list st' =
      map (\<lambda>b. reload (if b = emp then ?e else heap st b)) (employees st)"
    by (simp add: employee_list_def)
  have others: "b \<in> set (employees st) \<Longrightarrow>
      weekly_pay (reload (heap st b)) = weekly_pay (heap st b) \<and>
      year_to_date_pay (reload (heap st b)) = year_to_date_pay (heap st b)" for b
    using reachable_member_ok[OF assms(1)] reload_pay_ok by blast
  have w: "weekly_pay (reload ?e) = max 0 (fmt2 ?w)"
    by (simp add: reload_def employee_line_def employee_of_row_def Employee_def)
  have y: "year_to_date_pay (reload ?e) = year_to_date_pay (heap st emp)"
    using others[OF assms(2)]
    by (simp add: reload_def employee_line_def employee_of_row_def Employee_def)
  have "map weekly_pay (employee_list st') =
      map (\<lambda>b. if b = emp then max 0 (fmt2 ?w) else weekly_pay (heap st b)) (employees st)"
    using others w by (simp add: list)
  moreover have "map year_to_date_pay (employee_list st') = map year_to_date_pay (employee_list st)"
  proof -
    have "map year_to_date_pay (employee_list st') =
        map (\<lambda>b. year_to_date_pay (heap st b)) (employees st)"
      using others y by (simp add: list)
    then show ?thesis by (simp add: employee_list_def)
  qed
  ultimately show ?thesis by blast
qed

text \<open>
  An edit saved from a dialog whose object is no longer in the list (the list was loaded
  again since the dialog's view was opened) changes nobody's pay.
\<close>

lemma save_changes_detached:
  assumes "reachable st" and "emp \<notin> set (employees st)"
  shows "map weekly_pay (employee_list (fst (save_changes st emp invoice_row f)))
      = map weekly_pay (employee_list st)"
proof (cases "snd (save_changes st emp invoice_row f) = ShowInfo ''Success''")
  case True
  then obtain t p m fe where inp: "formula_inputs f = Some (t, p, m, fe)"
    by (auto simp: save_changes_def Let_def split: option.splits if_splits)
  have "save_changes st emp invoice_row f =
      (fst (save_changes st emp invoice_row f), ShowInfo ''Success'')"
    using True by (metis prod.collapse)
  from save_changes_success[OF this inp] obtain files e where
    st': "fst (save_changes st emp invoice_row f) = load_employees (save_employees
      (st\<lparr>invoices := files, heap := (heap st)(emp := e)\<rparr>))"
    by blast
  have same: "b \<in> set (employees st) \<Longrightarrow> weekly_pay (reload (heap st b)) = weekly_pay (heap st b)" for b
    using reachable_member_ok[OF assms(1)] reload_pay_ok by blast
  have "employee_list (fst (save_changes st emp invoice_row f)) =
      map reload (employee_list (st\<lparr>invoices := files, heap := (heap st)(emp := e)\<rparr>))"
    unfolding st' by (rule load_save_list)
  then have "employee_list (fst (save_changes st emp invoice_row f)) =
      map (\<lambda>b. reload (heap st b)) (employees st)"
    using assms(2) by (auto simp: employee_list_def)
  then show ?thesis using same by (simp add: employee_list_def)
next
  case False
  then have "fst (save_changes st emp invoice_row f) = st"
    by (auto simp: save_changes_def Let_def split: option.splits if_splits)
  then show ?thesis by simp
qed

text \<open>
  C9. In every state of a run, the weekly pay and the year-to-date pay of every employee
  of the list are non-negative, although the commission formula may return a negative
  amount.
\<close>

theorem pay_never_negative:
  "reachable st \<Longrightarrow>
   list_all pay_nonneg (employee_list st) \<and> calculate_commission_static False 0 (- 15) 0 0 < 0"
  using reachable_pay_ok[of st]
  by (simp add: list_all_iff pay_ok_def pay_nonneg_def calculate_commission_static_def)


lemma bob_reload:
  "reload \<lparr>emp_id = 1, name = ''Bob'', weekly_pay = w, year_to_date_pay = y\<rparr> =
   \<lparr>emp_id = 1, name = ''Bob'', weekly_pay = max 0 (fmt2 w), year_to_date_pay = max 0 (fmt2 y)\<rparr>"
  by (simp add: reload_def employee_line_def employee_of_row_def Employee_def strip_def isspace_def)

lemma example_doubles:
  "to_double 10 = 10" "to_double 60 = 60" "to_double 20 = 20" "to_double (- 15) = - 15"
  "to_double 0 = 0"
  by code_simp+

lemma example_amounts:
  "calculate_commission_double False 10 0 0 0 = 5"
  "calculate_commission_double False 60 0 0 0 = 30"
  "fsub 5 20 = - 15" "fsub 30 20 = 10" "fadd 10 (- 15) = - 5" "fadd 10 10 = 20"
  "fmt2 (- 5) = - 5" "fmt2 20 = 20" "fmt2 (- 15) = - 15"
  by code_simp+

lemma example_forms:
  "formula_inputs example_edit = Some (10, 0, 0, 0)"
  "formula_inputs example_edit_up = Some (60, 0, 0, 0)"
  "cc example_edit = False" "cc example_edit_up = False"
  "strip (number_entry example_edit) = ''A-1''" "strip (customer_entry example_edit) = ''Ann''"
  "strip (number_entry example_edit_up) = ''A-1''" "strip (customer_entry example_edit_up) = ''Ann''"
  "strip (date_entry example_edit) = ''01/05/2026''" "strip (date_entry example_edit_up) = ''01/05/2026''"
  "manual_override example_manual" "manual_commission_entry example_manual = Some (12344 / 1000)"
  "strip (number_entry example_manual) = ''C-3''" "strip (customer_entry example_manual) = ''Cy''"
  "manual_override example_refund" "manual_commission_entry example_refund = Some (- 15)"
  "strip (number_entry example_refund) = ''D-4''" "strip (customer_entry example_refund) = ''Di''"
  by (simp_all add: example_edit_def example_edit_up_def example_manual_def example_refund_def
      empty_form_def formula_inputs_def strip_def isspace_def example_doubles)

lemma example_files:
  "invoices example_tracker (''bob'', 1) = Some (Csv invoice_header [invoice_a, invoice_b])"
  "get_invoice_filename (heap example_tracker 0) = (''bob'', 1)"
  "payment_history example_tracker = (\<lambda>k. None)"
  by (simp_all add: example_tracker_eq example_storage_def get_invoice_filename_def bob_safe_name)

lemma example_edit_run:
  "snd (save_changes example_tracker 0 invoice_a example_edit) = ShowInfo ''Success''"
  "snd (save_changes example_tracker 0 invoice_a example_edit_up) = ShowInfo ''Success''"
  by (simp_all add: save_changes_def example_forms example_files Let_def)

lemma example_edit_list:
  "employee_list (fst (save_changes example_tracker 0 invoice_a example_edit)) =
     [\<lparr>emp_id = 1, name = ''Bob'', weekly_pay = 0, year_to_date_pay = 0\<rparr>]"
proof -
  have "save_changes example_tracker 0 invoice_a example_edit =
      (fst (save_changes example_tracker 0 invoice_a example_edit), ShowInfo ''Success'')"
    using example_edit_run(1) by (metis prod.collapse)
  from save_changes_success[OF this example_forms(1)] obtain files where
    "fst (save_changes example_tracker 0 invoice_a example_edit) =
       load_employees (save_employees (example_tracker\<lparr>invoices := files,
         heap := (heap example_tracker)(0 := (heap example_tracker 0)\<lparr>weekly_pay :=
           fadd (to_double (weekly_pay (heap example_tracker 0)))
             (fsub (calculate_commission_double (cc example_edit) 10 0 0 0)
                (to_double (commission invoice_a)))\<rparr>)\<rparr>))"
    by blast
  then have "employee_list (fst (save_changes example_tracker 0 invoice_a example_edit)) =
      map reload (employee_list (example_tracker\<lparr>invoices := files,
         heap := (heap example_tracker)(0 := (heap example_tracker 0)\<lparr>weekly_pay :=
           fadd (to_double (weekly_pay (heap example_tracker 0)))
             (fsub (calculate_commission_double (cc example_edit) 10 0 0 0)
                (to_double (commission invoice_a)))\<rparr>)\<rparr>))"
    by (simp only: load_save_list)
  moreover have "fmt2 0 = 0" by (rule fmt2_zero)
  ultimately show ?thesis
    by (simp add: employee_list_def example_facts example_forms bob_reload invoice_a_def
        example_doubles example_amounts)
qed

text \<open>
  Bob is owed 10.00; invoice A-1, stored with a commission of 20.00, is edited to a
  commission of 5.00: the weekly pay becomes 0.00, not 10.00 + (5.00 - 20.00).
\<close>

theorem edit_delta_counterexample:
  "weekly_pay (heap example_tracker 0) = 10 \<and> commission invoice_a = 20 \<and>
   formula_inputs example_edit = Some (10, 0, 0, 0) \<and>
   calculate_commission_double (cc example_edit) 10 0 0 0 = 5 \<and>
   snd (save_changes example_tracker 0 invoice_a example_edit) = ShowInfo ''Success'' \<and>
   map weekly_pay (employee_list (fst (save_changes example_tracker 0 invoice_a example_edit))) = [0] \<and>
   (0 :: rat) \<noteq> 10 + (5 - 20)"
proof -
  have "commission invoice_a = 20" by (simp add: invoice_a_def)
  then show ?thesis
    by (simp add: example_edit_list example_edit_run example_facts example_forms example_amounts)
qed

theorem edit_adjusts_weekly_pay_witness:
  "reachable example_tracker \<and> 0 \<in> set (employees example_tracker) \<and>
   formula_inputs example_edit_up = Some (60, 0, 0, 0) \<and>
   snd (save_changes example_tracker 0 invoice_a example_edit_up) = ShowInfo ''Success'' \<and>
   map weekly_pay (employee_list (fst (save_changes example_tracker 0 invoice_a example_edit_up)))
     = [20] \<and>
   map year_to_date_pay (employee_list (fst (save_changes example_tracker 0 invoice_a example_edit_up)))
     = [0]"
proof -
  have mem: "0 \<in> set (employees example_tracker)" by (simp add: example_facts)
  have run: "save_changes example_tracker 0 invoice_a example_edit_up =
      (fst (save_changes example_tracker 0 invoice_a example_edit_up), ShowInfo ''Success'')"
    using example_edit_run(2) by (metis prod.collapse)
  have old: "commission invoice_a = 20" by (simp add: invoice_a_def)
  show ?thesis
    using edit_adjusts_weekly_pay[OF example_reachable mem example_forms(2) run]
      example_reachable mem example_edit_run(2)
    by (simp add: example_forms example_facts employee_list_def old example_doubles
        example_amounts)
qed

text \<open>
  The same invoice edited to a total of 60.09: the double sum is a little above 20.045,
  and the weekly pay becomes 20.05.
\<close>

lemma example_edit_half_cent:
  "max 0 (fmt2 (fadd (to_double 10)
      (fsub (calculate_commission_double False (to_double (6009 / 100)) 0 0 0) (to_double 20))))
     = 2005 / 100"
  by code_simp

lemma example_manual_inputs:
  "commission_inputs example_manual = Some (to_double (12344 / 1000), 0, 0, 0, 0)"
  "commission_inputs example_refund = Some (- 15, 0, 0, 0, 0)"
  using manual_inputs[OF example_forms(11,12)] manual_inputs[OF example_forms(15,16)]
  by (simp_all add: example_doubles)

lemma example_manual_fields:
  "strip (date_entry example_manual) = ''01/07/2026''" "status_choice example_manual = ''Unpaid''"
  "strip (date_entry example_refund) = ''01/07/2026''" "status_choice example_refund = ''Paid''"
  by (simp_all add: example_manual_def example_refund_def empty_form_def strip_def isspace_def)

text \<open>
  A commission of 12.344 entered in manual mode is stored as 12.34.
\<close>

theorem manual_override_counterexample:
  "manual_override example_manual \<and>
   manual_commission_entry example_manual = Some (12344 / 1000) \<and>
   snd (save_invoice example_tracker 0 example_manual) = ShowInfo ''Success'' \<and>
   map_option rows (invoices (fst (save_invoice example_tracker 0 example_manual)) (''bob'', 1))
     = Some [invoice_a, invoice_b,
         \<lparr>number = ''C-3'', customer = ''Cy'', date = ''01/07/2026'', status = ''Unpaid'',
          total = 0, tip = 0, materials = 0, fees = 0, commission = 1234 / 100\<rparr>] \<and>
   (1234 / 100 :: rat) \<noteq> 12344 / 1000"
proof -
  define c :: rat where "c = to_double (12344 / 1000)"
  have ne: "strip (number_entry example_manual) \<noteq> []" "strip (customer_entry example_manual) \<noteq> []"
    by (simp_all add: example_forms)
  have inp: "commission_inputs example_manual = Some (c, 0, 0, 0, 0)"
    unfolding c_def by (rule example_manual_inputs(1))
  have f: "fmt2 c = 1234 / 100" unfolding c_def by code_simp
  have row: "written_row ''C-3'' ''Cy'' ''01/07/2026'' ''Unpaid'' 0 0 0 0 c =
      \<lparr>number = ''C-3'', customer = ''Cy'', date = ''01/07/2026'', status = ''Unpaid'',
       total = 0, tip = 0, materials = 0, fees = 0, commission = 1234 / 100\<rparr>"
    by (simp only: written_row_def f fmt2_zero)
  have "map_option rows (invoices (fst (save_invoice example_tracker 0 example_manual))
        (get_invoice_filename (heap example_tracker 0)))
      = Some ((case invoices example_tracker (get_invoice_filename (heap example_tracker 0)) of
                 None \<Rightarrow> [] | Some file \<Rightarrow> rows file) @
              [written_row (strip (number_entry example_manual)) (strip (customer_entry example_manual))
                 (strip (date_entry example_manual)) (status_choice example_manual) 0 0 0 0 c])"
    by (rule save_invoice_rows[OF inp ne])
  then have rows: "map_option rows (invoices (fst (save_invoice example_tracker 0 example_manual))
        (''bob'', 1)) = Some [invoice_a, invoice_b,
         \<lparr>number = ''C-3'', customer = ''Cy'', date = ''01/07/2026'', status = ''Unpaid'',
          total = 0, tip = 0, materials = 0, fees = 0, commission = 1234 / 100\<rparr>]"
    by (simp only: example_files example_forms example_manual_fields row option.case csv.sel
        append.simps)
  have msg: "snd (save_invoice example_tracker 0 example_manual) = ShowInfo ''Success''"
    by (simp only: save_invoice_success[OF inp ne] snd_conv)
  have "(1234 / 100 :: rat) \<noteq> 12344 / 1000" by simp
  then show ?thesis using rows msg example_forms(11,12) by blast
qed

text \<open>A commission of 12.345 entered in manual mode is stored as 12.35.\<close>

lemma example_manual_half_cent: "fmt2 (to_double (12345 / 1000)) = 1235 / 100"
  by code_simp

text \<open>
  A total of 10.03 without card, tip, materials or fees gives a commission stored as 5.01:
  the double nearest to 10.03 halved is a little below 5.015.
\<close>

lemma example_commission_half_cent:
  "fmt2 (calculate_commission_double False (to_double (1003 / 100)) 0 0 0) = 501 / 100"
  by code_simp

theorem manual_override_row_witness:
  "manual_override example_refund \<and> manual_commission_entry example_refund = Some (- 15) \<and>
   strip (number_entry example_refund) \<noteq> [] \<and> strip (customer_entry example_refund) \<noteq> [] \<and>
   snd (save_invoice example_tracker 0 example_refund) = ShowInfo ''Success'' \<and>
   map_option rows (invoices (fst (save_invoice example_tracker 0 example_refund)) (''bob'', 1))
     = Some [invoice_a, invoice_b,
         \<lparr>number = ''D-4'', customer = ''Di'', date = ''01/07/2026'', status = ''Paid'',
          total = 0, tip = 0, materials = 0, fees = 0, commission = - 15\<rparr>]"
proof -
  have ne: "strip (number_entry example_refund) \<noteq> []" "strip (customer_entry example_refund) \<noteq> []"
    by (simp_all add: example_forms)
  show ?thesis
    using manual_override_row[OF example_forms(15,16) ne, of example_tracker 0] ne
    by (simp add: example_forms example_files example_manual_fields example_doubles
        example_amounts)
qed

lemma example_closeout_run:
  "process_closeout example_strptime_ok ''01/08/2026'' example_tracker (Some 1)
     [Confirm ''tomorrow'', Confirm '' 01/09/2026 ''] = (example_closed, ShowInfo ''Success'')"
proof -
  have "0 < weekly_pay (heap example_tracker 0)" by (simp add: example_facts)
  from process_closeout_confirmed[OF example_facts(1) this example_dialog, of "''01/08/2026''"]
  show ?thesis by (simp add: example_closed_def)
qed

lemma example_closed_facts:
  "find_employee example_closed 1 = Some 1"
  "heap example_closed 1 = \<lparr>emp_id = 1, name = ''Bob'', weekly_pay = 0, year_to_date_pay = 10\<rparr>"
  "invoices example_closed (''bob'', 1) = Some (Csv invoice_header [])"
  "archived_invoices example_closed (''bob'', 1, ''01-09-2026'')
     = Some (Csv invoice_header [invoice_a, invoice_b])"
  "payment_history example_closed (''bob'', 1) = Some (Csv payment_header [(''01/09/2026'', 10)])"
  by (simp_all add: example_closed_eq find_employee_def)

theorem closeout_guard_witness:
  "find_employee example_closed 1 = Some 1 \<and> weekly_pay (heap example_closed 1) \<le> 0 \<and>
   process_closeout example_strptime_ok ''01/08/2026'' example_tracker (Some 1)
     [Confirm ''tomorrow'', Confirm '' 01/09/2026 ''] = (example_closed, ShowInfo ''Success'') \<and>
   process_closeout example_strptime_ok ''01/09/2026'' example_closed (Some 1)
     [Confirm ''01/09/2026''] = (example_closed, ShowInfo ''Info'')"
proof -
  have zero: "find_employee example_closed 1 = Some 1 \<and> weekly_pay (heap example_closed 1) \<le> 0"
    using example_closed_facts(1,2) by simp
  have first: "process_closeout example_strptime_ok ''01/09/2026'' example_closed (Some 1)
      [Confirm ''01/09/2026''] = (example_closed, ShowInfo ''Info'')"
    using closeout_guard[where st = example_closed and i = 1 and emp = 1
        and ok = example_strptime_ok and today = "''01/09/2026''"
        and acts = "[Confirm ''01/09/2026'']"] zero by blast
  have again: "process_closeout example_strptime_ok ''01/09/2026'' example_closed (Some 1)
      [Confirm ''01/09/2026''] = (example_closed, ShowInfo ''Info'')"
    using closeout_guard[where st = example_tracker and i = 1
        and ok = example_strptime_ok and today = "''01/08/2026''"
        and acts = "[Confirm ''tomorrow'', Confirm '' 01/09/2026 '']" and st' = example_closed
        and ?ok2.0 = example_strptime_ok and ?today2.0 = "''01/09/2026''"
        and ?acts2.0 = "[Confirm ''01/09/2026'']"] example_closeout_run by blast
  show ?thesis using zero first again example_closeout_run by blast
qed

lemma bob_files:
  "get_invoice_filename \<lparr>emp_id = i, name = ''Bob'', weekly_pay = w, year_to_date_pay = y\<rparr>
     = (''bob'', i)"
  "get_payment_history_filename \<lparr>emp_id = i, name = ''Bob'', weekly_pay = w, year_to_date_pay = y\<rparr>
     = (''bob'', i)"
  by (simp_all add: get_invoice_filename_def get_payment_history_filename_def bob_safe_name)

theorem closeout_records_payment_witness:
  "reachable example_tracker \<and> find_employee example_tracker 1 = Some 0 \<and>
   0 < weekly_pay (heap example_tracker 0) \<and>
   date_dialog example_strptime_ok [Confirm ''tomorrow'', Confirm '' 01/09/2026 '']
     = Some ''01/09/2026'' \<and>
   payment_history example_closed
     = (payment_history example_tracker)((''bob'', 1) \<mapsto>
         Csv payment_header [(''01/09/2026'', 10)]) \<and>
   map_option weekly_pay (employee_by_id example_closed 1) = Some 0 \<and>
   map_option year_to_date_pay (employee_by_id example_closed 1) = Some 10"
proof -
  have pos: "0 < weekly_pay (heap example_tracker 0)" by (simp add: example_facts)
  show ?thesis
    using closeout_records_payment[OF example_reachable example_facts(1) pos example_dialog,
        of "''01/08/2026''"] example_reachable
    by (simp add: example_closeout_run bob_files example_files example_facts example_dialog
        del: date_dialog.simps)
qed

lemma example_no_file_eq:
  "example_no_file = example_storage\<lparr>heap := (heap example_storage)
       (0 := \<lparr>emp_id = 1, name = ''Bob'', weekly_pay = 10, year_to_date_pay = 0\<rparr>),
     next_ref := 1, employees := [0], invoices := (\<lambda>k. None)\<rparr>"
  by (simp add: example_no_file_def load_employees_def example_storage_def employee_of_row_def
      Employee_def strip_def isspace_def)

lemma example_no_file_facts:
  "find_employee example_no_file 1 = Some 0"
  "heap example_no_file 0 = \<lparr>emp_id = 1, name = ''Bob'', weekly_pay = 10, year_to_date_pay = 0\<rparr>"
  "invoices example_no_file = (\<lambda>k. None)"
  "archived_invoices example_no_file = (\<lambda>k. None)"
  by (simp_all add: example_no_file_eq find_employee_def example_storage_def)

lemma example_dialog_direct:
  "date_dialog example_strptime_ok [Confirm ''01/09/2026''] = Some ''01/09/2026''"
  by (simp add: example_strptime_ok_def strip_def isspace_def)

lemma example_no_file_run:
  "process_closeout example_strptime_ok ''01/08/2026'' example_no_file (Some 1)
     [Confirm ''01/09/2026''] = (example_no_file_closed, ShowInfo ''Success'') \<and>
   invoices example_no_file_closed = (\<lambda>k. None) \<and>
   archived_invoices example_no_file_closed = (\<lambda>k. None)"
proof -
  have "0 < weekly_pay (heap example_no_file 0)" by (simp add: example_no_file_facts)
  from process_closeout_confirmed[OF example_no_file_facts(1) this example_dialog_direct,
      of "''01/08/2026''"]
  show ?thesis
    by (simp add: example_no_file_closed_def load_save_frame archive_invoices_def
        record_payment_frame example_no_file_facts)
qed

text \<open>
  Bob is owed 10.00 and has no invoice file: the close-out records the payment, and
  afterwards there is still no invoice file and no archive.
\<close>

theorem closeout_archives_counterexample:
  "find_employee example_no_file 1 = Some 0 \<and> 0 < weekly_pay (heap example_no_file 0) \<and>
   process_closeout example_strptime_ok ''01/08/2026'' example_no_file (Some 1)
     [Confirm ''01/09/2026''] = (example_no_file_closed, ShowInfo ''Success'') \<and>
   invoices example_no_file_closed (get_invoice_filename (heap example_no_file 0))
     \<noteq> Some (Csv invoice_header []) \<and>
   archived_invoices example_no_file_closed (''bob'', 1, ''01-09-2026'') = None"
  using example_no_file_run by (simp add: example_no_file_facts)

theorem closeout_archives_invoices_witness:
  "find_employee example_tracker 1 = Some 0 \<and> 0 < weekly_pay (heap example_tracker 0) \<and>
   date_dialog example_strptime_ok [Confirm ''tomorrow'', Confirm '' 01/09/2026 '']
     = Some ''01/09/2026'' \<and>
   invoices example_tracker (''bob'', 1) = Some (Csv invoice_header [invoice_a, invoice_b]) \<and>
   invoices example_closed (''bob'', 1) = Some (Csv invoice_header []) \<and>
   archived_invoices example_closed (''bob'', 1, ''01-09-2026'')
     = Some (Csv invoice_header [invoice_a, invoice_b]) \<and>
   invoices example_no_file (get_invoice_filename (heap example_no_file 0)) = None \<and>
   invoices example_no_file_closed = invoices example_no_file \<and>
   archived_invoices example_no_file_closed = archived_invoices example_no_file"
proof -
  have pos: "0 < weekly_pay (heap example_tracker 0)" by (simp add: example_facts)
  have pos2: "0 < weekly_pay (heap example_no_file 0)" by (simp add: example_no_file_facts)
  have sn: "safe_name (heap example_tracker 0) = ''bob''"
    by (simp add: example_facts bob_safe_name)
  have dash: "replace (CHR ''/'') (CHR ''-'') ''01/09/2026'' = ''01-09-2026''"
    by (simp add: replace_def)
  show ?thesis
    using closeout_archives_invoices[OF example_facts(1) pos example_dialog,
        of "Csv invoice_header [invoice_a, invoice_b]" "''01/08/2026''"]
      closeout_archives_invoices[OF example_no_file_facts(1) pos2 example_dialog_direct,
        of "Csv invoice_header []" "''01/08/2026''"]
      pos example_no_file_run
    by (simp add: example_closeout_run example_files example_facts sn dash example_no_file_facts
        bob_files bob_safe_name example_dialog del: date_dialog.simps)
qed

theorem toggle_same_status_witness:
  "status invoice_b = ''Paid'' \<and>
   toggle_invoice_status example_tracker 0 invoice_b ''Paid'' = (example_tracker, ShowInfo ''Info'')"
proof -
  have s: "status invoice_b = ''Paid''" by (simp add: invoice_b_def)
  from toggle_same_status[OF s, of example_tracker 0] s show ?thesis by simp
qed

theorem last_payment_date_witness:
  "[(''01/02/2026'', 5 :: rat), (''01/09/2026'', 10)] \<noteq> [] \<and>
   get_last_payment_date (Contents (Csv payment_header [(''01/02/2026'', 5), (''01/09/2026'', 10)]))
     = ''01/09/2026'' \<and>
   payment_history example_tracker (get_payment_history_filename (heap example_tracker 0)) = None \<and>
   get_last_payment_date (read_payment_history example_tracker (heap example_tracker 0))
     = ''Never Paid'' \<and>
   payment_history example_closed (get_payment_history_filename (heap example_closed 1))
     = Some (Csv payment_header [(''01/09/2026'', 10)]) \<and>
   get_last_payment_date (read_payment_history example_closed (heap example_closed 1))
     = ''01/09/2026''"
proof -
  have none: "payment_history example_tracker (get_payment_history_filename (heap example_tracker 0))
      = None"
    by (simp add: example_files)
  have some: "payment_history example_closed (get_payment_history_filename (heap example_closed 1))
      = Some (Csv payment_header [(''01/09/2026'', 10)])"
    using example_closed_facts(2,5) by (simp add: bob_files)
  have "get_last_payment_date (read_payment_history example_tracker (heap example_tracker 0))
      = ''Never Paid''"
    using last_payment_date[where st = example_tracker and e = "heap example_tracker 0"] none
    by blast
  moreover have "get_last_payment_date (read_payment_history example_closed (heap example_closed 1))
      = fst (last [(''01/09/2026'', 10 :: rat)])"
    using last_payment_date[where st = example_closed and e = "heap example_closed 1"
        and h = payment_header and rs = "[(''01/09/2026'', 10)]"] some
    by blast
  moreover have "get_last_payment_date
      (Contents (Csv payment_header [(''01/02/2026'', 5 :: rat), (''01/09/2026'', 10)]))
      = fst (last [(''01/02/2026'', 5 :: rat), (''01/09/2026'', 10)])"
    using last_payment_date[where h = payment_header
        and rs = "[(''01/02/2026'', 5), (''01/09/2026'', 10)]"]
    by blast
  ultimately show ?thesis using none some by simp
qed

lemma example_clamped_list:
  "employee_list example_clamped =
     [\<lparr>emp_id = 1, name = ''Bob'', weekly_pay = 0, year_to_date_pay = 0\<rparr>]"
proof -
  have ne: "strip (number_entry example_refund) \<noteq> []" "strip (customer_entry example_refund) \<noteq> []"
    by (simp_all add: example_forms)
  have "fmt2 0 = 0" by (rule fmt2_zero)
  then show ?thesis
    unfolding example_clamped_def perform.simps
      save_invoice_success[OF example_manual_inputs(2) ne] fst_conv load_save_list
    by (simp add: employee_list_def example_facts bob_reload example_doubles example_amounts)
qed

theorem pay_never_negative_witness:
  "reachable example_clamped \<and> list_all pay_nonneg (employee_list example_clamped) \<and>
   map weekly_pay (employee_list example_clamped) = [0]"
proof -
  have "object_exists example_tracker (SaveInvoice 0 example_refund)"
    by (simp add: example_tracker_eq)
  with example_reachable have r: "reachable example_clamped"
    unfolding example_clamped_def by (rule reachable.step)
  from pay_never_negative[OF r] r show ?thesis by (simp add: example_clamped_list)
qed

end
